theory Spec2Isabelle
  imports Complex_Main
begin

section \<open>JavaScript strings\<close>

text \<open>
  A JavaScript string is a sequence of UTF-16 code units; \<open>length\<close>, \<open>trim\<close> and the
  regular expressions of \<^verbatim>\<open>validation.ts\<close> (none has the \<^verbatim>\<open>u\<close> flag) all work on code
  units. A code unit is modelled as a natural number, an ASCII literal of the source is
  written \<open>js ''...''\<close>, and the two non-ASCII characters of the messages are given by
  their code unit (U+2705 = 9989, U+274C = 10060).
\<close>

type_synonym jsstring = "nat list"

definition js :: "string \<Rightarrow> jsstring" where
  "js s = map of_char s"

text \<open>ECMAScript \<open>WhiteSpace\<close> and \<open>LineTerminator\<close> code points.\<close>

definition isWhiteSpace :: "nat \<Rightarrow> bool" where
  "isWhiteSpace c =
     (c = 9 \<or> c = 11 \<or> c = 12 \<or> c = 32 \<or> c = 160 \<or> c = 5760 \<or>
      (8192 \<le> c \<and> c \<le> 8202) \<or> c = 8239 \<or> c = 8287 \<or> c = 12288 \<or> c = 65279)"

definition isLineTerminator :: "nat \<Rightarrow> bool" where
  "isLineTerminator c = (c = 10 \<or> c = 13 \<or> c = 8232 \<or> c = 8233)"

text \<open>What \<^verbatim>\<open>String.prototype.trim\<close> strips and what \<^verbatim>\<open>\s\<close> matches.\<close>

definition isStrWhiteSpaceChar :: "nat \<Rightarrow> bool" where
  "isStrWhiteSpaceChar c = (isWhiteSpace c \<or> isLineTerminator c)"

definition trim :: "jsstring \<Rightarrow> jsstring" where
  "trim s = rev (dropWhile isStrWhiteSpaceChar (rev (dropWhile isStrWhiteSpaceChar s)))"

text \<open>\<^verbatim>\<open>Array.prototype.join\<close> on an array of strings.\<close>

fun join :: "jsstring \<Rightarrow> jsstring list \<Rightarrow> jsstring" where
  "join sep [] = []"
| "join sep [x] = x"
| "join sep (x # y # ys) = x @ sep @ join sep (y # ys)"

section \<open>The required pattern\<close>

text \<open>
  \<^verbatim>\<open>/^my name is (.+?) and i belong to group (.+?) and today i met (.+?) at (.+?)\.?$/i\<close>

  The matcher below is the backtracking execution of this expression at index 0 (the
  \<^verbatim>\<open>^\<close> without the \<^verbatim>\<open>m\<close> flag rules out every other start). Each piece takes the rest
  of the pattern as its continuation, so that a failure further right makes a lazy group
  grow by one character, as the engine does.
\<close>

text \<open>
  Case-insensitive comparison (flag \<^verbatim>\<open>i\<close>, no \<^verbatim>\<open>u\<close>): both characters are canonicalised
  by upper-casing. The characters of the pattern are ASCII, and ECMAScript's Canonicalize
  never maps a code unit of 128 or more to one below 128, so only the ASCII letters
  matter here.
\<close>

definition canonicalize :: "nat \<Rightarrow> nat" where
  "canonicalize c = (if 97 \<le> c \<and> c \<le> 122 then c - 32 else c)"

fun matchLiteral :: "jsstring \<Rightarrow> jsstring \<Rightarrow> jsstring option" where
  "matchLiteral [] s = Some s"
| "matchLiteral (p # ps) [] = None"
| "matchLiteral (p # ps) (c # cs) =
     (if canonicalize c = canonicalize p then matchLiteral ps cs else None)"

text \<open>
  \<^verbatim>\<open>(.+?)\<close> followed by the continuation \<open>k\<close>: \<^verbatim>\<open>.\<close> takes one character that is not a
  line terminator (there is no \<^verbatim>\<open>s\<close> flag); then the continuation is tried first, and
  only when it fails does the group take one more character. \<open>acc\<close> is what the group
  has captured so far.
\<close>

fun lazyGroup :: "(jsstring \<Rightarrow> 'a option) \<Rightarrow> jsstring \<Rightarrow> jsstring \<Rightarrow> (jsstring \<times> 'a) option" where
  "lazyGroup k acc [] = None"
| "lazyGroup k acc (c # cs) =
     (if isLineTerminator c then None
      else (case k cs of
              Some r \<Rightarrow> Some (acc @ [c], r)
            | None \<Rightarrow> lazyGroup k (acc @ [c]) cs))"

text \<open>A literal stretch of the pattern followed by a lazy group.\<close>

definition seg :: "jsstring \<Rightarrow> (jsstring \<Rightarrow> 'a option) \<Rightarrow> jsstring \<Rightarrow> (jsstring \<times> 'a) option" where
  "seg lit k s = (case matchLiteral lit s of None \<Rightarrow> None | Some r \<Rightarrow> lazyGroup k [] r)"

text \<open>
  \<^verbatim>\<open>\.?$\<close>: the greedy option takes a period when there is one and then needs the end
  of the string; otherwise it takes nothing and needs the end of the string.
\<close>

definition optPeriodEnd :: "jsstring \<Rightarrow> unit option" where
  "optPeriodEnd r =
     (if (case r of [] \<Rightarrow> False | c # cs \<Rightarrow> c = 46 \<and> cs = []) then Some ()
      else if r = [] then Some ()
      else None)"

definition REQUIRED_PATTERN :: "jsstring \<Rightarrow> (jsstring \<times> jsstring \<times> jsstring \<times> jsstring) option" where
  "REQUIRED_PATTERN s =
     (case seg (js ''my name is '')
             (seg (js '' and i belong to group '')
                (seg (js '' and today i met '')
                   (seg (js '' at '') optPeriodEnd))) s of
        None \<Rightarrow> None
      | Some (m1, m2, m3, m4, u) \<Rightarrow> Some (m1, m2, m3, m4))"

section \<open>The validator (\<^verbatim>\<open>apps/web/src/lib/validation.ts\<close>)\<close>

record VoiceMessage =
  speakerName :: jsstring
  groupNumber :: jsstring
  personMet :: jsstring
  location :: jsstring

text \<open>\<open>extractedData = None\<close> is \<^verbatim>\<open>null\<close>; \<open>errors = None\<close> is an absent property.\<close>

record ValidationResult =
  isValid :: bool
  message :: jsstring
  extractedData :: "VoiceMessage option"
  errors :: "jsstring list option"

text \<open>
  \<^verbatim>\<open>/^[...]+$/.test(s)\<close> for a character class: one character of the class, then either
  more of them (the greedy choice) or the end of the string.
\<close>

fun testClassPlus :: "(nat \<Rightarrow> bool) \<Rightarrow> jsstring \<Rightarrow> bool" where
  "testClassPlus cls [] = False"
| "testClassPlus cls (c # cs) = (cls c \<and> (testClassPlus cls cs \<or> cs = []))"

text \<open>\<^verbatim>\<open>[a-zA-Z\s\-\.\']\<close>\<close>

definition nameClass :: "nat \<Rightarrow> bool" where
  "nameClass c =
     ((97 \<le> c \<and> c \<le> 122) \<or> (65 \<le> c \<and> c \<le> 90) \<or> isStrWhiteSpaceChar c \<or>
      c = 45 \<or> c = 46 \<or> c = 39)"

text \<open>\<^verbatim>\<open>[a-zA-Z0-9\s\-\.\,\']\<close>\<close>

definition locationClass :: "nat \<Rightarrow> bool" where
  "locationClass c =
     ((97 \<le> c \<and> c \<le> 122) \<or> (65 \<le> c \<and> c \<le> 90) \<or> (48 \<le> c \<and> c \<le> 57) \<or>
      isStrWhiteSpaceChar c \<or> c = 45 \<or> c = 46 \<or> c = 44 \<or> c = 39)"

definition isValidName :: "jsstring \<Rightarrow> bool" where
  "isValidName name =
     (length name \<ge> 2 \<and> length name \<le> 100 \<and> testClassPlus nameClass name)"

text \<open>
  \<^verbatim>\<open>parseInt(groupStr, 10)\<close>: leading white space is skipped, one sign is read, and the
  longest run of decimal digits that follows is the number; with no digit there the
  result is \<^verbatim>\<open>NaN\<close>, here \<open>None\<close>. Whatever follows the digits is ignored. The value is
  kept as an exact integer: the rounding to a double only happens far above 999, where
  it cannot change a comparison with 0 or 999.
\<close>

definition isDigit :: "nat \<Rightarrow> bool" where
  "isDigit c = (48 \<le> c \<and> c \<le> 57)"

definition digitsValue :: "jsstring \<Rightarrow> int" where
  "digitsValue z = foldl (\<lambda>v c. 10 * v + (int c - 48)) 0 z"

definition parseInt10 :: "jsstring \<Rightarrow> int option" where
  "parseInt10 inputString =
     (let S = dropWhile isStrWhiteSpaceChar inputString;
          sign = (if S \<noteq> [] \<and> hd S = 45 then - 1 else 1);
          S' = (if S \<noteq> [] \<and> (hd S = 43 \<or> hd S = 45) then tl S else S);
          Z = takeWhile isDigit S'
      in if Z = [] then None else Some (sign * digitsValue Z))"

definition isValidGroupNumber :: "jsstring \<Rightarrow> bool" where
  "isValidGroupNumber groupStr =
     (case parseInt10 groupStr of
        None \<Rightarrow> False
      | Some groupNum \<Rightarrow> groupNum > 0 \<and> groupNum \<le> 999)"

definition isValidLocation :: "jsstring \<Rightarrow> bool" where
  "isValidLocation loc =
     (length loc \<ge> 2 \<and> length loc \<le> 200 \<and> testClassPlus locationClass loc)"

text \<open>The array \<^verbatim>\<open>errors\<close> is threaded through the four \<^verbatim>\<open>if\<close> statements.\<close>

definition validateExtractedData :: "VoiceMessage \<Rightarrow> jsstring list" where
  "validateExtractedData d =
     (let errors0 = [];
          errors1 = (if \<not> isValidName (speakerName d)
                     then errors0 @ [js ''Invalid speaker name''] else errors0);
          errors2 = (if \<not> isValidGroupNumber (groupNumber d)
                     then errors1 @ [js ''Group number must be a valid number''] else errors1);
          errors3 = (if \<not> isValidName (personMet d)
                     then errors2 @ [js ''Invalid person name''] else errors2);
          errors4 = (if \<not> isValidLocation (location d)
                     then errors3 @ [js ''Invalid location''] else errors3)
      in errors4)"

definition validateTranscription :: "jsstring \<Rightarrow> ValidationResult" where
  "validateTranscription text =
     (let trimmedText = trim text in
      if trimmedText = [] then
        \<lparr>isValid = False, message = [], extractedData = None, errors = None\<rparr>
      else
        (case REQUIRED_PATTERN trimmedText of
           Some (m1, m2, m3, m4) \<Rightarrow>
             (let extracted = \<lparr>speakerName = trim m1, groupNumber = trim m2,
                               personMet = trim m3, location = trim m4\<rparr>;
                  errs = validateExtractedData extracted
              in if length errs > 0 then
                   \<lparr>isValid = False,
                    message = js ''Format is correct but data has issues: '' @ join (js '', '') errs,
                    extractedData = Some extracted,
                    errors = Some errs\<rparr>
                 else
                   \<lparr>isValid = True,
                    message = [9989] @ js '' Perfect! The message follows the required format.'',
                    extractedData = Some extracted,
                    errors = None\<rparr>)
         | None \<Rightarrow>
             \<lparr>isValid = False,
              message = [10060] @ js '' Please follow the exact format: '' @ [34] @
                        js ''My name is [name] and I belong to group [#] and today I met [name] at [location].'' @ [34],
              extractedData = None,
              errors = None\<rparr>))"

section \<open>The template, read declaratively\<close>






definition isAsciiLetter :: "nat \<Rightarrow> bool" where
  "isAsciiLetter c = ((65 \<le> c \<and> c \<le> 90) \<or> (97 \<le> c \<and> c \<le> 122))"

section \<open>The meetings service (\<^verbatim>\<open>apps/api/src/modules/meetings/meetings.service.ts\<close>)\<close>

subsection \<open>Data\<close>

datatype RecordingStatus = SUBMITTED | VALIDATED | PROCESSED | FAILED | ARCHIVED

datatype ProcessingStatus = PENDING | PROCESSING | COMPLETED | PROCESSING_FAILED | RETRYING

text \<open>
  The result of the API's validation service: the service reads \<^verbatim>\<open>confidence\<close> besides
  the fields of the shared \<^verbatim>\<open>ValidationResult\<close>.
\<close>

record ApiValidationResult = ValidationResult +
  confidence :: "real option"

record Metadata =
  ipAddress :: "jsstring option"
  userAgent :: "jsstring option"

record CreateMeetingRecordDto =
  fullTranscription :: jsstring
  recordingDuration :: jsstring
  metadata :: "Metadata option"

record MulterFile =
  originalname :: jsstring

text \<open>What the service reads of \<^verbatim>\<open>getCurrentDateData()\<close>.\<close>

record DateData =
  recordingDate :: jsstring
  recordingDateTime :: jsstring
  year :: int
  month :: int
  day :: int
  dayOfWeek :: jsstring

text \<open>
  A row of the \<^verbatim>\<open>meetingRecord\<close> table. A \<^verbatim>\<open>Date\<close> is its time value (milliseconds
  since the epoch). \<open>mr_id\<close> is generated by the storage, the eighteen fields from
  \<open>mr_recordingDate\<close> to \<open>mr_userAgent\<close> are the ones \<^verbatim>\<open>createMeetingRecord\<close> passes to
  \<^verbatim>\<open>create\<close>, and the last three are written by the synchronisation. The
  storage-managed \<^verbatim>\<open>createdAt\<close> and \<^verbatim>\<open>updatedAt\<close> are read by \<^verbatim>\<open>formatMeetingRecord\<close>
  only and are left out.
\<close>

record MeetingRow =
  mr_id :: jsstring
  mr_recordingDate :: int
  mr_recordingDateTime :: int
  mr_year :: int
  mr_month :: int
  mr_day :: int
  mr_dayOfWeek :: jsstring
  mr_speakerName :: jsstring
  mr_groupNumber :: jsstring
  mr_personMet :: jsstring
  mr_location :: jsstring
  mr_fullTranscription :: jsstring
  mr_recordingDuration :: jsstring
  mr_audioFileUrl :: "jsstring option"
  mr_status :: RecordingStatus
  mr_processingStatus :: ProcessingStatus
  mr_validationScore :: real
  mr_ipAddress :: "jsstring option"
  mr_userAgent :: "jsstring option"
  mr_syncedToSheets :: bool
  mr_googleSheetsRowId :: "jsstring option"
  mr_sheetsLastSync :: "int option"

text \<open>A row of the \<^verbatim>\<open>dailyStats\<close> table, one for each date; the counters are integers.\<close>

record DailyStats =
  date :: int
  totalRecordings :: int
  successfulRecordings :: int
  failedRecordings :: int
  uniqueGroups :: int
  uniqueSpeakers :: int
  averageDuration :: int

text \<open>
  The state the service works on: the two tables, and the callbacks handed to
  \<^verbatim>\<open>setImmediate\<close> that have not run yet (each is the id it was created for).
\<close>

record Store =
  meetingRecords :: "MeetingRow list"
  dailyStats :: "int \<rightharpoonup> DailyStats"
  scheduled :: "jsstring list"

datatype BadRequestException =
    BadRequestObject jsstring jsstring "jsstring list option"
  | BadRequestText jsstring

datatype StorageError = StorageError

text \<open>
  The collaborators of one call of \<^verbatim>\<open>createMeetingRecord\<close>. The validation service
  and the date service (\<^verbatim>\<open>@/common/services\<close>), the \<^verbatim>\<open>Date\<close> constructor and the
  formatting of the returned record are parameters. \<open>createResult\<close> is the id the storage generates,
  or \<open>None\<close> when \<^verbatim>\<open>create\<close> rejects; \<open>upsertThrows\<close> says whether the
  \<^verbatim>\<open>dailyStats.upsert\<close> of this call rejects. \<open>dateNowText\<close> is \<^verbatim>\<open>Date.now()\<close> as
  the template literal of \<^verbatim>\<open>saveAudioFile\<close> prints it.
\<close>

record 'v CreateEnv =
  validateTranscriptionService :: "jsstring \<Rightarrow> ApiValidationResult"
  getCurrentDateData :: DateData
  newDate :: "jsstring \<Rightarrow> int"
  dateNowText :: jsstring
  createResult :: "jsstring option"
  upsertThrows :: bool
  formatMeetingRecord :: "MeetingRow \<Rightarrow> 'v"

text \<open>
  The collaborators of the two synchronisation paths. \<open>addRecord\<close> is the push to the
  external sheet: the row id it returns, or \<open>None\<close> when it throws. \<open>updateThrows\<close> says
  for which id \<^verbatim>\<open>meetingRecord.update\<close> rejects, \<open>findThrows\<close> whether the initial
  \<^verbatim>\<open>findMany\<close> or \<^verbatim>\<open>findUnique\<close> rejects, and \<open>newDateNow\<close> is the \<^verbatim>\<open>new Date()\<close>
  taken while the update of a record is built.
\<close>

record SyncEnv =
  addRecord :: "MeetingRow \<Rightarrow> jsstring option"
  updateThrows :: "jsstring \<Rightarrow> bool"
  findThrows :: bool
  newDateNow :: "MeetingRow \<Rightarrow> int"

subsection \<open>Creating a record\<close>

text \<open>\<^verbatim>\<open>saveAudioFile\<close>: only the name of the file is computed.\<close>

definition saveAudioFile :: "jsstring \<Rightarrow> MulterFile \<Rightarrow> jsstring" where
  "saveAudioFile nowText audioFile =
     (let filename = js ''audio_'' @ nowText @ js ''_'' @ originalname audioFile
      in js ''/uploads/audio/'' @ filename)"

text \<open>\<^verbatim>\<open>prisma.dailyStats.upsert\<close> with the \<^verbatim>\<open>update\<close> and \<^verbatim>\<open>create\<close> arguments of the source.\<close>

definition upsertDailyStats :: "int \<Rightarrow> Store \<Rightarrow> Store" where
  "upsertDailyStats dateObj st =
     (case dailyStats st dateObj of
        Some row \<Rightarrow>
          st\<lparr>dailyStats := (dailyStats st)(dateObj \<mapsto>
                row\<lparr>totalRecordings := totalRecordings row + 1,
                    successfulRecordings := successfulRecordings row + 1\<rparr>)\<rparr>
      | None \<Rightarrow>
          st\<lparr>dailyStats := (dailyStats st)(dateObj \<mapsto>
                \<lparr>date = dateObj, totalRecordings = 1, successfulRecordings = 1,
                 failedRecordings = 0, uniqueGroups = 1, uniqueSpeakers = 1,
                 averageDuration = 0\<rparr>)\<rparr>)"

definition updateDailyStatistics :: "'v CreateEnv \<Rightarrow> jsstring \<Rightarrow> Store \<Rightarrow> StorageError + Store" where
  "updateDailyStatistics env dateStr st =
     (let dateObj = newDate env dateStr
      in if upsertThrows env then Inl StorageError
         else Inr (upsertDailyStats dateObj st))"

text \<open>
  \<^verbatim>\<open>processBackgroundTasks\<close> only hands its callback to \<^verbatim>\<open>setImmediate\<close>; the callback is
  \<open>backgroundTask\<close> below.
\<close>

definition processBackgroundTasks :: "jsstring \<Rightarrow> Store \<Rightarrow> Store" where
  "processBackgroundTasks meetingRecordId st = st\<lparr>scheduled := scheduled st @ [meetingRecordId]\<rparr>"

text \<open>
  Modelled from the spec: the storage's defaults for the fields that the \<^verbatim>\<open>create\<close> call
  of \<^verbatim>\<open>createMeetingRecord\<close> does not pass, \<^verbatim>\<open>syncedToSheets\<close>, \<^verbatim>\<open>googleSheetsRowId\<close>
  and \<^verbatim>\<open>sheetsLastSync\<close> (the database schema is not among the sources). A record starts
  unsynchronised, and the row id and the time of the last synchronisation are absent
  until a synchronisation sets them. \<open>createData\<close> is the row that \<^verbatim>\<open>create\<close> stores:
  the \<^verbatim>\<open>data\<close> object of the call, the generated id and these defaults.
\<close>

definition createData ::
  "'v CreateEnv \<Rightarrow> CreateMeetingRecordDto \<Rightarrow> MulterFile option \<Rightarrow> ApiValidationResult \<Rightarrow>
     DateData \<Rightarrow> VoiceMessage \<Rightarrow> jsstring \<Rightarrow> MeetingRow" where
  "createData env dto audioFile validationResult dateData extracted newId =
     \<lparr>mr_id = newId,
      mr_recordingDate = newDate env (recordingDate dateData),
      mr_recordingDateTime = newDate env (recordingDateTime dateData),
      mr_year = year dateData,
      mr_month = month dateData,
      mr_day = day dateData,
      mr_dayOfWeek = dayOfWeek dateData,
      mr_speakerName = speakerName extracted,
      mr_groupNumber = groupNumber extracted,
      mr_personMet = personMet extracted,
      mr_location = location extracted,
      mr_fullTranscription = fullTranscription dto,
      mr_recordingDuration = recordingDuration dto,
      mr_audioFileUrl =
        (case audioFile of
           Some f \<Rightarrow> Some (saveAudioFile (dateNowText env) f)
         | None \<Rightarrow> None),
      mr_status = SUBMITTED,
      mr_processingStatus = PENDING,
      mr_validationScore =
        (case confidence validationResult of
           None \<Rightarrow> 1
         | Some c \<Rightarrow> if c = 0 then 1 else c),
      mr_ipAddress = (case metadata dto of None \<Rightarrow> None | Some m \<Rightarrow> ipAddress m),
      mr_userAgent = (case metadata dto of None \<Rightarrow> None | Some m \<Rightarrow> userAgent m),
      mr_syncedToSheets = False,
      mr_googleSheetsRowId = None,
      mr_sheetsLastSync = None\<rparr>"

text \<open>
  \<^verbatim>\<open>createMeetingRecord\<close>. Everything after the validation is inside the \<^verbatim>\<open>try\<close>, whose
  \<^verbatim>\<open>catch\<close> turns any exception into the same \<^verbatim>\<open>BadRequestException\<close>: the
  \<^verbatim>\<open>extractedData!\<close> of a result without extracted data, a rejected \<^verbatim>\<open>create\<close>, a
  rejected \<^verbatim>\<open>upsert\<close>. The calls of the logger are left out: they change neither the
  store nor the result.
\<close>

definition createMeetingRecord ::
  "'v CreateEnv \<Rightarrow> CreateMeetingRecordDto \<Rightarrow> MulterFile option \<Rightarrow> Store \<Rightarrow>
     (BadRequestException + 'v) \<times> Store" where
  "createMeetingRecord env dto audioFile st =
     (let validationResult = validateTranscriptionService env (fullTranscription dto) in
      if \<not> isValid validationResult then
        (Inl (BadRequestObject (js ''INVALID_MESSAGE_FORMAT'')
                (message validationResult) (errors validationResult)), st)
      else
        (let dateData = getCurrentDateData env;
             failed = Inl (BadRequestText (js ''Failed to create meeting record''))
         in case extractedData validationResult of
              None \<Rightarrow> (failed, st)
            | Some extracted \<Rightarrow>
                (case createResult env of
                   None \<Rightarrow> (failed, st)
                 | Some newId \<Rightarrow>
                     (let meetingRecord =
                            createData env dto audioFile validationResult dateData extracted newId;
                          st1 = st\<lparr>meetingRecords := meetingRecords st @ [meetingRecord]\<rparr>;
                          st2 = processBackgroundTasks (mr_id meetingRecord) st1
                      in case updateDailyStatistics env (recordingDate dateData) st2 of
                           Inl e \<Rightarrow> (failed, st2)
                         | Inr st3 \<Rightarrow> (Inr (formatMeetingRecord env meetingRecord), st3)))))"

text \<open>A run of calls, one after the other, each with its own collaborators.\<close>

fun createMany ::
  "('v CreateEnv \<times> CreateMeetingRecordDto \<times> MulterFile option) list \<Rightarrow> Store \<Rightarrow>
     (BadRequestException + 'v) list \<times> Store" where
  "createMany [] st = ([], st)"
| "createMany ((env, dto, audioFile) # calls) st =
     (let (r, st1) = createMeetingRecord env dto audioFile st;
          (rs, st2) = createMany calls st1
      in (r # rs, st2))"

definition totalRecordingsAt :: "Store \<Rightarrow> int \<Rightarrow> int" where
  "totalRecordingsAt st d = (case dailyStats st d of None \<Rightarrow> 0 | Some row \<Rightarrow> totalRecordings row)"

text \<open>
  The validator of \<^verbatim>\<open>validation.ts\<close> in the place of the validation service, for
  running the service on concrete transcriptions: it reports no confidence.
\<close>

definition webValidator :: "jsstring \<Rightarrow> ApiValidationResult" where
  "webValidator t =
     (let r = validateTranscription t
      in \<lparr>isValid = isValid r, message = message r, extractedData = extractedData r,
          errors = errors r, confidence = None\<rparr>)"

subsection \<open>Synchronising with the sheet\<close>

definition findUnique :: "jsstring \<Rightarrow> Store \<Rightarrow> MeetingRow option" where
  "findUnique rid st = find (\<lambda>r. mr_id r = rid) (meetingRecords st)"

text \<open>\<^verbatim>\<open>meetingRecord.update\<close> by id; \<open>None\<close> when there is no such record (it rejects).\<close>

definition updateRecord :: "jsstring \<Rightarrow> (MeetingRow \<Rightarrow> MeetingRow) \<Rightarrow> Store \<Rightarrow> Store option" where
  "updateRecord rid f st =
     (if \<exists>r \<in> set (meetingRecords st). mr_id r = rid
      then Some (st\<lparr>meetingRecords := map (\<lambda>r. if mr_id r = rid then f r else r) (meetingRecords st)\<rparr>)
      else None)"

text \<open>
  The \<^verbatim>\<open>findMany\<close> of \<^verbatim>\<open>syncToGoogleSheets\<close>: unsynchronised records, by ascending
  \<^verbatim>\<open>recordingDate\<close>, at most 100. Records of the same date keep their order in the table.
\<close>

definition findManyUnsynced :: "Store \<Rightarrow> MeetingRow list" where
  "findManyUnsynced st =
     take 100 (sort_key mr_recordingDate
                 (filter (\<lambda>r. mr_syncedToSheets r = False) (meetingRecords st)))"

record SyncResult =
  r_synced :: nat
  r_errors :: nat

text \<open>
  The \<^verbatim>\<open>for\<close> loop: the \<^verbatim>\<open>try\<close> holds the push and the update, the \<^verbatim>\<open>catch\<close> counts an
  error and the loop goes on.
\<close>

fun syncLoop :: "SyncEnv \<Rightarrow> MeetingRow list \<Rightarrow> Store \<times> nat \<times> nat \<Rightarrow> Store \<times> nat \<times> nat" where
  "syncLoop env [] acc = acc"
| "syncLoop env (record # rest) (st, synced, errs) =
     syncLoop env rest
       (case addRecord env record of
          None \<Rightarrow> (st, synced, errs + 1)
        | Some rowId \<Rightarrow>
            (if updateThrows env (mr_id record) then (st, synced, errs + 1)
             else (case updateRecord (mr_id record)
                          (\<lambda>r. r\<lparr>mr_syncedToSheets := True,
                                 mr_googleSheetsRowId := Some rowId,
                                 mr_sheetsLastSync := Some (newDateNow env record)\<rparr>) st of
                     None \<Rightarrow> (st, synced, errs + 1)
                   | Some st' \<Rightarrow> (st', synced + 1, errs))))"

definition syncToGoogleSheets :: "SyncEnv \<Rightarrow> Store \<Rightarrow> (StorageError + SyncResult) \<times> Store" where
  "syncToGoogleSheets env st =
     (if findThrows env then (Inl StorageError, st)
      else (let unsyncedRecords = findManyUnsynced st;
                (st', synced, errs) = syncLoop env unsyncedRecords (st, 0, 0)
            in (Inr \<lparr>r_synced = synced, r_errors = errs\<rparr>, st')))"

text \<open>
  The callback of \<^verbatim>\<open>processBackgroundTasks\<close>. Its \<^verbatim>\<open>catch\<close> only logs, so every failure
  leaves the store as it is. The row id that \<^verbatim>\<open>addRecord\<close> returns is not used.
\<close>

definition backgroundTask :: "SyncEnv \<Rightarrow> jsstring \<Rightarrow> Store \<Rightarrow> Store" where
  "backgroundTask env meetingRecordId st =
     (if findThrows env then st
      else (case findUnique meetingRecordId st of
              None \<Rightarrow> st
            | Some record \<Rightarrow>
                (case addRecord env record of
                   None \<Rightarrow> st
                 | Some rowId \<Rightarrow>
                     (if updateThrows env meetingRecordId then st
                      else (case updateRecord meetingRecordId
                                   (\<lambda>r. r\<lparr>mr_syncedToSheets := True,
                                          mr_sheetsLastSync := Some (newDateNow env record)\<rparr>) st of
                              None \<Rightarrow> st
                            | Some st' \<Rightarrow> st')))))"

text \<open>The event loop runs the oldest scheduled callback.\<close>

definition runScheduled :: "SyncEnv \<Rightarrow> Store \<Rightarrow> Store" where
  "runScheduled env st =
     (case scheduled st of
        [] \<Rightarrow> st
      | meetingRecordId # rest \<Rightarrow> backgroundTask env meetingRecordId (st\<lparr>scheduled := rest\<rparr>))"

text \<open>The invariant of the data model on the synchronisation fields.\<close>

definition syncedComplete :: "MeetingRow \<Rightarrow> bool" where
  "syncedComplete r =
     (mr_syncedToSheets r \<longrightarrow> mr_googleSheetsRowId r \<noteq> None \<and> mr_sheetsLastSync r \<noteq> None)"

definition storeSyncedComplete :: "Store \<Rightarrow> bool" where
  "storeSyncedComplete st = (\<forall>r \<in> set (meetingRecords st). syncedComplete r)"

subsection \<open>What a synchronisation pass leaves behind\<close>

text \<open>
  Notions for stating the outcome of \<^verbatim>\<open>syncToGoogleSheets\<close>; they are not part of the
  service. The \<^verbatim>\<open>try\<close> block of the loop completes for a record when its push returns
  a row id and its update does not reject; \<open>markSynced\<close> is the update of the loop, with
  the row id and the time taken for the fetched record \<open>record\<close>.
\<close>

definition pushCompletes :: "SyncEnv \<Rightarrow> MeetingRow \<Rightarrow> bool" where
  "pushCompletes env r = (addRecord env r \<noteq> None \<and> \<not> updateThrows env (mr_id r))"

definition markSynced :: "SyncEnv \<Rightarrow> MeetingRow \<Rightarrow> MeetingRow \<Rightarrow> MeetingRow" where
  "markSynced env record r =
     r\<lparr>mr_syncedToSheets := True,
       mr_googleSheetsRowId := addRecord env record,
       mr_sheetsLastSync := Some (newDateNow env record)\<rparr>"

definition markFor :: "SyncEnv \<Rightarrow> MeetingRow list \<Rightarrow> MeetingRow \<Rightarrow> MeetingRow" where
  "markFor env recs r =
     (case find (\<lambda>x. mr_id x = mr_id r \<and> pushCompletes env x) recs of
        None \<Rightarrow> r
      | Some x \<Rightarrow> markSynced env x r)"

subsection \<open>A concrete setting\<close>

text \<open>
  Collaborators and inputs on which the service is run below: the clock reads 27 July
  2025, the storage works and generates the id \<^verbatim>\<open>rec1\<close>, the validation service is the
  validator above, and the formatted record is the row itself.
\<close>

definition exampleDateData :: DateData where
  "exampleDateData =
     \<lparr>recordingDate = js ''2025-07-27'',
      recordingDateTime = js ''2025-07-27T10:00:00.000Z'',
      year = 2025, month = 7, day = 27, dayOfWeek = js ''Sunday''\<rparr>"

definition exampleEnv :: "MeetingRow CreateEnv" where
  "exampleEnv =
     \<lparr>validateTranscriptionService = webValidator,
      getCurrentDateData = exampleDateData,
      newDate = (\<lambda>s. if s = js ''2025-07-27'' then 1753574400000 else 1753610400000),
      dateNowText = js ''1753610400000'',
      createResult = Some (js ''rec1''),
      upsertThrows = False,
      formatMeetingRecord = (\<lambda>r. r)\<rparr>"

definition validDto :: CreateMeetingRecordDto where
  "validDto =
     \<lparr>fullTranscription =
        js ''My name is John Smith and I belong to group 5 and today I met Sarah Johnson at the coffee shop.'',
      recordingDuration = js ''00:07'',
      metadata = None\<rparr>"

definition malformedDto :: CreateMeetingRecordDto where
  "malformedDto =
     \<lparr>fullTranscription = js ''Hi, my name is John and I met Sarah today.'',
      recordingDuration = js ''00:03'',
      metadata = None\<rparr>"

definition emptyStore :: Store where
  "emptyStore = \<lparr>meetingRecords = [], dailyStats = Map.empty, scheduled = []\<rparr>"

text \<open>A row with a given id and recording date, and a sheet that refuses the record \<^verbatim>\<open>c\<close>.\<close>

definition exampleRow :: "jsstring \<Rightarrow> int \<Rightarrow> MeetingRow" where
  "exampleRow rid d =
     \<lparr>mr_id = rid, mr_recordingDate = d, mr_recordingDateTime = d + 36000000,
      mr_year = 2025, mr_month = 7, mr_day = 27, mr_dayOfWeek = js ''Sunday'',
      mr_speakerName = js ''John Smith'', mr_groupNumber = js ''5'',
      mr_personMet = js ''Sarah Johnson'', mr_location = js ''the coffee shop'',
      mr_fullTranscription =
        js ''My name is John Smith and I belong to group 5 and today I met Sarah Johnson at the coffee shop.'',
      mr_recordingDuration = js ''00:07'', mr_audioFileUrl = None,
      mr_status = SUBMITTED, mr_processingStatus = PENDING, mr_validationScore = 1,
      mr_ipAddress = None, mr_userAgent = None,
      mr_syncedToSheets = False, mr_googleSheetsRowId = None, mr_sheetsLastSync = None\<rparr>"

definition exampleSheet :: SyncEnv where
  "exampleSheet =
     \<lparr>addRecord = (\<lambda>r. if mr_id r = js ''c'' then None else Some (js ''row-'' @ mr_id r)),
      updateThrows = (\<lambda>rid. False),
      findThrows = False,
      newDateNow = (\<lambda>r. 1753610400000)\<rparr>"

section \<open>The matcher accepts the language of the template\<close>











lemma dropWhile_Nil_iff: "dropWhile P xs = [] \<longleftrightarrow> (\<forall>x \<in> set xs. P x)"
  by (induction xs) auto

lemma trim_Nil_iff: "trim t = [] \<longleftrightarrow> (\<forall>c \<in> set t. isStrWhiteSpaceChar c)"
proof -
  let ?d = "dropWhile isStrWhiteSpaceChar t"
  have "trim t = [] \<longleftrightarrow> (\<forall>c \<in> set ?d. isStrWhiteSpaceChar c)"
    by (simp add: trim_def dropWhile_Nil_iff)
  also have "\<dots> \<longleftrightarrow> ?d = []"
  proof
    assume a: "\<forall>c \<in> set ?d. isStrWhiteSpaceChar c"
    show "?d = []"
    proof (rule ccontr)
      assume n: "?d \<noteq> []"
      then have "\<not> isStrWhiteSpaceChar (hd ?d)" by (rule hd_dropWhile)
      moreover from n have "hd ?d \<in> set ?d" by simp
      ultimately show False using a by blast
    qed
  next
    assume e: "?d = []"
    show "\<forall>c \<in> set ?d. isStrWhiteSpaceChar c" unfolding e by simp
  qed
  also have "\<dots> \<longleftrightarrow> (\<forall>c \<in> set t. isStrWhiteSpaceChar c)"
    by (rule dropWhile_Nil_iff)
  finally show ?thesis .
qed


section \<open>Evaluating the validator\<close>

lemmas ws_defs = isStrWhiteSpaceChar_def isWhiteSpace_def isLineTerminator_def

lemmas match_defs = js_def trim_def ws_defs REQUIRED_PATTERN_def seg_def canonicalize_def
  optPeriodEnd_def

lemmas check_defs = validateExtractedData_def isValidName_def isValidLocation_def
  isValidGroupNumber_def parseInt10_def nameClass_def locationClass_def isDigit_def
  digitsValue_def

section \<open>Properties of the validator\<close>

text \<open>Inputs of the specification and some variations, evaluated.\<close>

lemma example_valid_result:
  "validateTranscription
     (js ''My name is John Smith and I belong to group 5 and today I met Sarah Johnson at the coffee shop.'') =
   \<lparr>isValid = True,
    message = [9989] @ js '' Perfect! The message follows the required format.'',
    extractedData = Some \<lparr>speakerName = js ''John Smith'', groupNumber = js ''5'',
                           personMet = js ''Sarah Johnson'', location = js ''the coffee shop''\<rparr>,
    errors = None\<rparr>"
  by (simp add: validateTranscription_def match_defs check_defs)


text \<open>
  The last span is free text as well: of two final periods the first belongs to the
  location and the second is the optional period of the template.
\<close>

lemma example_two_periods:
  "validateTranscription (js ''my name is Al and i belong to group 7 and today i met Bo at cafe..'') =
   \<lparr>isValid = True,
    message = [9989] @ js '' Perfect! The message follows the required format.'',
    extractedData = Some \<lparr>speakerName = js ''Al'', groupNumber = js ''7'',
                           personMet = js ''Bo'', location = js ''cafe.''\<rparr>,
    errors = None\<rparr>"
  by (simp add: validateTranscription_def match_defs check_defs)

lemma example_short_name_result:
  "validateTranscription
     (js ''My name is J and I belong to group 5 and today I met Sarah Johnson at the coffee shop.'') =
   \<lparr>isValid = False,
    message = js ''Format is correct but data has issues: Invalid speaker name'',
    extractedData = Some \<lparr>speakerName = js ''J'', groupNumber = js ''5'',
                           personMet = js ''Sarah Johnson'', location = js ''the coffee shop''\<rparr>,
    errors = Some [js ''Invalid speaker name'']\<rparr>"
  by (simp add: validateTranscription_def match_defs check_defs)

lemma example_short_name_match:
  "REQUIRED_PATTERN (trim (js ''My name is J and I belong to group 5 and today I met Sarah Johnson at the coffee shop.'')) =
     Some (js ''J'', js ''5'', js ''Sarah Johnson'', js ''the coffee shop'')"
  by (simp add: match_defs)







lemma message_nonempty: "trim u \<noteq> [] \<Longrightarrow> message (validateTranscription u) \<noteq> []"
  by (auto simp: validateTranscription_def Let_def js_def split: option.splits)

text \<open>
  C2. For every input that is empty or consists of white space only,
  \<^verbatim>\<open>validateTranscription\<close> returns the neutral result: not valid, the empty message, no
  extracted data. No input with a non-empty trimmed text gives this result, so it cannot
  be mistaken for a format error.
\<close>

theorem validateTranscription_blank:
  assumes "\<forall>c \<in> set t. isStrWhiteSpaceChar c"
  shows "validateTranscription t =
           \<lparr>isValid = False, message = [], extractedData = None, errors = None\<rparr> \<and>
         (\<forall>u. trim u \<noteq> [] \<longrightarrow> validateTranscription u \<noteq> validateTranscription t)"
proof -
  from assms have e: "trim t = []" by (simp add: trim_Nil_iff)
  then have r: "validateTranscription t =
      \<lparr>isValid = False, message = [], extractedData = None, errors = None\<rparr>"
    by (simp add: validateTranscription_def)
  have "validateTranscription u \<noteq> validateTranscription t" if "trim u \<noteq> []" for u
  proof
    assume "validateTranscription u = validateTranscription t"
    then have "message (validateTranscription u) = []" by (simp add: r)
    with message_nonempty[OF that] show False by simp
  qed
  with r show ?thesis by blast
qed

theorem validateTranscription_blank_witness:
  "list_all isStrWhiteSpaceChar [32, 9, 10, 160] \<and>
   validateTranscription [32, 9, 10, 160] =
     \<lparr>isValid = False, message = [], extractedData = None, errors = None\<rparr> \<and>
   validateTranscription (js ''Hi, my name is John and I met Sarah today.'') \<noteq>
     validateTranscription [32, 9, 10, 160]"
proof -
  have h: "\<forall>c \<in> set [32, 9, 10, 160]. isStrWhiteSpaceChar c" by (simp add: ws_defs)
  have b: "trim (js ''Hi, my name is John and I met Sarah today.'') \<noteq> []"
    by (simp add: js_def trim_def ws_defs)
  have l: "list_all isStrWhiteSpaceChar [32, 9, 10, 160]" by (simp add: ws_defs)
  from validateTranscription_blank[OF h] b l show ?thesis by blast
qed

text \<open>
  C3, as stated, fails: the message of a template match with semantic errors starts with
  \<^verbatim>\<open>Format is correct but data has issues: \<close>, not with
  \<^verbatim>\<open>format correct but data has issues: \<close>.
\<close>

theorem semantic_errors_message_counterexample:
  "REQUIRED_PATTERN (trim (js ''My name is J and I belong to group 5 and today I met Sarah Johnson at the coffee shop.'')) \<noteq> None \<and>
   errors (validateTranscription (js ''My name is J and I belong to group 5 and today I met Sarah Johnson at the coffee shop.'')) =
     Some [js ''Invalid speaker name''] \<and>
   message (validateTranscription (js ''My name is J and I belong to group 5 and today I met Sarah Johnson at the coffee shop.'')) \<noteq>
     js ''format correct but data has issues: '' @ join (js '', '') [js ''Invalid speaker name'']"
  by (simp add: example_short_name_result example_short_name_match) (simp add: js_def)

text \<open>
  C3, amended. For every input that matches the template but whose trimmed extracted
  fields fail a semantic check, \<^verbatim>\<open>validateTranscription\<close> returns \<open>isValid = False\<close>, the
  message \<^verbatim>\<open>Format is correct but data has issues: \<close> followed by the errors joined
  with a comma and a space, the list of errors, and the trimmed extracted fields as
  \<open>extractedData\<close>, although the result is not valid.
\<close>

theorem validateTranscription_semantic_errors:
  assumes "trim t \<noteq> []"
    and "REQUIRED_PATTERN (trim t) = Some (m1, m2, m3, m4)"
    and "vm = \<lparr>speakerName = trim m1, groupNumber = trim m2,
                    personMet = trim m3, location = trim m4\<rparr>"
    and "validateExtractedData vm \<noteq> []"
  shows "validateTranscription t =
           \<lparr>isValid = False,
            message = js ''Format is correct but data has issues: '' @
                      join (js '', '') (validateExtractedData vm),
            extractedData = Some vm,
            errors = Some (validateExtractedData vm)\<rparr>"
  using assms by (simp add: validateTranscription_def Let_def)

theorem validateTranscription_semantic_errors_witness:
  "trim (js ''My name is J and I belong to group 5 and today I met Sarah Johnson at the coffee shop.'') \<noteq> [] \<and>
   REQUIRED_PATTERN (trim (js ''My name is J and I belong to group 5 and today I met Sarah Johnson at the coffee shop.'')) =
     Some (js ''J'', js ''5'', js ''Sarah Johnson'', js ''the coffee shop'') \<and>
   validateExtractedData \<lparr>speakerName = trim (js ''J''), groupNumber = trim (js ''5''),
     personMet = trim (js ''Sarah Johnson''), location = trim (js ''the coffee shop'')\<rparr> \<noteq> [] \<and>
   validateTranscription (js ''My name is J and I belong to group 5 and today I met Sarah Johnson at the coffee shop.'') =
     \<lparr>isValid = False,
      message = js ''Format is correct but data has issues: '' @
                join (js '', '') (validateExtractedData
                  \<lparr>speakerName = trim (js ''J''), groupNumber = trim (js ''5''),
                   personMet = trim (js ''Sarah Johnson''), location = trim (js ''the coffee shop'')\<rparr>),
      extractedData = Some \<lparr>speakerName = trim (js ''J''), groupNumber = trim (js ''5''),
                   personMet = trim (js ''Sarah Johnson''), location = trim (js ''the coffee shop'')\<rparr>,
      errors = Some (validateExtractedData
                  \<lparr>speakerName = trim (js ''J''), groupNumber = trim (js ''5''),
                   personMet = trim (js ''Sarah Johnson''), location = trim (js ''the coffee shop'')\<rparr>)\<rparr>"
proof -
  let ?t = "js ''My name is J and I belong to group 5 and today I met Sarah Johnson at the coffee shop.''"
  let ?f = "\<lparr>speakerName = trim (js ''J''), groupNumber = trim (js ''5''),
     personMet = trim (js ''Sarah Johnson''), location = trim (js ''the coffee shop'')\<rparr>"
  have a: "trim ?t \<noteq> []" by (simp add: js_def trim_def ws_defs)
  have c: "validateExtractedData ?f \<noteq> []" by (simp add: js_def trim_def ws_defs check_defs)
  from validateTranscription_semantic_errors[OF a example_short_name_match refl c] a c
    example_short_name_match
  show ?thesis by blast
qed

subsection \<open>The semantic checks\<close>

lemma testClassPlus_iff: "testClassPlus cls s \<longleftrightarrow> s \<noteq> [] \<and> (\<forall>c \<in> set s. cls c)"
  by (induction s) auto

lemma nameClass_iff:
  "nameClass c \<longleftrightarrow> isAsciiLetter c \<or> isStrWhiteSpaceChar c \<or> c = 45 \<or> c = 46 \<or> c = 39"
  by (auto simp: nameClass_def isAsciiLetter_def)

lemma locationClass_iff:
  "locationClass c \<longleftrightarrow>
     isAsciiLetter c \<or> isDigit c \<or> isStrWhiteSpaceChar c \<or> c = 45 \<or> c = 46 \<or> c = 44 \<or> c = 39"
  by (auto simp: locationClass_def isAsciiLetter_def isDigit_def)

lemma digit_not_nameClass: "isDigit c \<Longrightarrow> \<not> nameClass c"
  by (auto simp: isDigit_def nameClass_def ws_defs)

lemma isValidName_iff:
  "isValidName n \<longleftrightarrow>
     2 \<le> length n \<and> length n \<le> 100 \<and>
     (\<forall>c \<in> set n. isAsciiLetter c \<or> isStrWhiteSpaceChar c \<or> c = 45 \<or> c = 46 \<or> c = 39)"
  by (auto simp: isValidName_def testClassPlus_iff nameClass_iff)

lemma isValidLocation_iff:
  "isValidLocation l \<longleftrightarrow>
     2 \<le> length l \<and> length l \<le> 200 \<and>
     (\<forall>c \<in> set l. isAsciiLetter c \<or> isDigit c \<or> isStrWhiteSpaceChar c \<or>
                   c = 45 \<or> c = 46 \<or> c = 44 \<or> c = 39)"
  by (auto simp: isValidLocation_def testClassPlus_iff locationClass_iff)

lemma digit_name_invalid: "\<exists>c \<in> set n. isDigit c \<Longrightarrow> \<not> isValidName n"
  by (auto simp: isValidName_def testClassPlus_iff dest: digit_not_nameClass)

lemma validateExtractedData_eq:
  "validateExtractedData d =
     (if isValidName (speakerName d) then [] else [js ''Invalid speaker name'']) @
     (if isValidGroupNumber (groupNumber d) then [] else [js ''Group number must be a valid number'']) @
     (if isValidName (personMet d) then [] else [js ''Invalid person name'']) @
     (if isValidLocation (location d) then [] else [js ''Invalid location''])"
  by (simp add: validateExtractedData_def)

text \<open>
  C5. \<^verbatim>\<open>validateExtractedData\<close> runs the four checks (speaker name, group number, person
  met, location) each on its own, none depending on the outcome of another, and returns
  their messages in that order. A name is valid exactly when its length is between 2 and
  100 and all its characters are ASCII letters, white space, hyphen, period or
  apostrophe, so a name with a digit is reported (\<^verbatim>\<open>Invalid speaker name\<close>,
  \<^verbatim>\<open>Invalid person name\<close>). A location is valid exactly when its length is between 2 and
  200 and all its characters are ASCII letters, digits, white space, hyphen, period,
  comma or apostrophe.
\<close>

theorem validateExtractedData_checks:
  "validateExtractedData d =
     (if isValidName (speakerName d) then [] else [js ''Invalid speaker name'']) @
     (if isValidGroupNumber (groupNumber d) then [] else [js ''Group number must be a valid number'']) @
     (if isValidName (personMet d) then [] else [js ''Invalid person name'']) @
     (if isValidLocation (location d) then [] else [js ''Invalid location'']) \<and>
   (isValidName n \<longleftrightarrow>
      2 \<le> length n \<and> length n \<le> 100 \<and>
      (\<forall>c \<in> set n. isAsciiLetter c \<or> isStrWhiteSpaceChar c \<or> c = 45 \<or> c = 46 \<or> c = 39)) \<and>
   ((\<exists>c \<in> set (speakerName d). isDigit c) \<longrightarrow>
      js ''Invalid speaker name'' \<in> set (validateExtractedData d)) \<and>
   ((\<exists>c \<in> set (personMet d). isDigit c) \<longrightarrow>
      js ''Invalid person name'' \<in> set (validateExtractedData d)) \<and>
   (isValidLocation l \<longleftrightarrow>
      2 \<le> length l \<and> length l \<le> 200 \<and>
      (\<forall>c \<in> set l. isAsciiLetter c \<or> isDigit c \<or> isStrWhiteSpaceChar c \<or>
                    c = 45 \<or> c = 46 \<or> c = 44 \<or> c = 39))"
proof -
  have 1: "(\<exists>c \<in> set (speakerName d). isDigit c) \<longrightarrow>
      js ''Invalid speaker name'' \<in> set (validateExtractedData d)"
    using digit_name_invalid[of "speakerName d"] by (auto simp: validateExtractedData_eq)
  have 2: "(\<exists>c \<in> set (personMet d). isDigit c) \<longrightarrow>
      js ''Invalid person name'' \<in> set (validateExtractedData d)"
    using digit_name_invalid[of "personMet d"] by (auto simp: validateExtractedData_eq)
  from 1 2 validateExtractedData_eq[of d] isValidName_iff[of n] isValidLocation_iff[of l]
  show ?thesis by blast
qed


theorem validateExtractedData_checks_witness:
  "validateExtractedData \<lparr>speakerName = js ''J0hn'', groupNumber = js ''0'',
                           personMet = js ''A'', location = js ''x!''\<rparr> =
     [js ''Invalid speaker name'', js ''Group number must be a valid number'',
      js ''Invalid person name'', js ''Invalid location''] \<and>
   isValidName (js ''Anne-Marie St. John'') \<and>
   js ''Invalid speaker name'' \<in> set (validateExtractedData
      \<lparr>speakerName = js ''J0hn'', groupNumber = js ''0'',
       personMet = js ''A'', location = js ''x!''\<rparr>) \<and>
   isValidLocation (js ''12 Main St., Apt 4'')"
proof -
  let ?d = "\<lparr>speakerName = js ''J0hn'', groupNumber = js ''0'',
             personMet = js ''A'', location = js ''x!''\<rparr>"
  let ?n = "js ''Anne-Marie St. John''"
  let ?l = "js ''12 Main St., Apt 4''"
  note t = validateExtractedData_checks[of ?d ?n ?l]
  have v: "\<not> isValidName (js ''J0hn'')" "\<not> isValidGroupNumber (js ''0'')"
    "\<not> isValidName (js ''A'')" "\<not> isValidLocation (js ''x!'')"
    by (simp_all add: js_def ws_defs check_defs)
  from t v have 1: "validateExtractedData ?d =
     [js ''Invalid speaker name'', js ''Group number must be a valid number'',
      js ''Invalid person name'', js ''Invalid location'']" by simp
  have "2 \<le> length ?n \<and> length ?n \<le> 100 \<and>
      (\<forall>c \<in> set ?n. isAsciiLetter c \<or> isStrWhiteSpaceChar c \<or> c = 45 \<or> c = 46 \<or> c = 39)"
    by (simp add: js_def ws_defs isAsciiLetter_def)
  with t have 2: "isValidName ?n" by blast
  have "\<exists>c \<in> set (speakerName ?d). isDigit c" by (simp add: js_def isDigit_def)
  with t have 3: "js ''Invalid speaker name'' \<in> set (validateExtractedData ?d)" by blast
  have "2 \<le> length ?l \<and> length ?l \<le> 200 \<and>
      (\<forall>c \<in> set ?l. isAsciiLetter c \<or> isDigit c \<or> isStrWhiteSpaceChar c \<or>
                    c = 45 \<or> c = 46 \<or> c = 44 \<or> c = 39)"
    by (simp add: js_def ws_defs isAsciiLetter_def isDigit_def)
  with t have 4: "isValidLocation ?l" by blast
  from 1 2 3 4 show ?thesis by blast
qed






text \<open>\<^verbatim>\<open>parseInt\<close> reads a prefix: what follows the digits does not matter.\<close>

lemma isValidGroupNumber_prefix_examples:
  "isValidGroupNumber (js ''5abc'')" "isValidGroupNumber (js ''+7'')"
  "isValidGroupNumber (js ''007'')" "isValidGroupNumber (js ''12.5'')"
  by (simp_all add: js_def ws_defs check_defs)









section \<open>Properties of record creation\<close>

lemma createMeetingRecord_Inr:
  assumes "createMeetingRecord env dto audioFile st = (Inr v, st')"
  shows "\<exists>extracted newId.
           isValid (validateTranscriptionService env (fullTranscription dto)) \<and>
           extractedData (validateTranscriptionService env (fullTranscription dto)) = Some extracted \<and>
           createResult env = Some newId \<and> \<not> upsertThrows env \<and>
           st' = upsertDailyStats (newDate env (recordingDate (getCurrentDateData env)))
                   (processBackgroundTasks newId
                      (st\<lparr>meetingRecords := meetingRecords st @
                           [createData env dto audioFile
                              (validateTranscriptionService env (fullTranscription dto))
                              (getCurrentDateData env) extracted newId]\<rparr>))"
  using assms
  by (auto simp: createMeetingRecord_def Let_def updateDailyStatistics_def createData_def
           split: if_splits option.splits sum.splits)

lemma createMeetingRecord_Inl_dailyStats:
  assumes "createMeetingRecord env dto audioFile st = (Inl e, st')"
  shows "dailyStats st' = dailyStats st"
  using assms
  by (auto simp: createMeetingRecord_def Let_def updateDailyStatistics_def
                 processBackgroundTasks_def
           split: if_splits option.splits sum.splits)

lemma dailyStats_upsert:
  "dailyStats (upsertDailyStats d st) =
     (dailyStats st)(d \<mapsto>
        (case dailyStats st d of
           Some row \<Rightarrow> row\<lparr>totalRecordings := totalRecordings row + 1,
                           successfulRecordings := successfulRecordings row + 1\<rparr>
         | None \<Rightarrow> \<lparr>date = d, totalRecordings = 1, successfulRecordings = 1,
                    failedRecordings = 0, uniqueGroups = 1, uniqueSpeakers = 1,
                    averageDuration = 0\<rparr>))"
  by (simp add: upsertDailyStats_def split: option.splits)

lemma createMeetingRecord_dailyStats:
  assumes "createMeetingRecord env dto audioFile st = (Inr v, st')"
    and "d = newDate env (recordingDate (getCurrentDateData env))"
  shows "dailyStats st' =
     (dailyStats st)(d \<mapsto>
        (case dailyStats st d of
           Some row \<Rightarrow> row\<lparr>totalRecordings := totalRecordings row + 1,
                           successfulRecordings := successfulRecordings row + 1\<rparr>
         | None \<Rightarrow> \<lparr>date = d, totalRecordings = 1, successfulRecordings = 1,
                    failedRecordings = 0, uniqueGroups = 1, uniqueSpeakers = 1,
                    averageDuration = 0\<rparr>))"
proof -
  from createMeetingRecord_Inr[OF assms(1)] obtain extracted newId where
    "st' = upsertDailyStats d
             (processBackgroundTasks newId
                (st\<lparr>meetingRecords := meetingRecords st @
                     [createData env dto audioFile
                        (validateTranscriptionService env (fullTranscription dto))
                        (getCurrentDateData env) extracted newId]\<rparr>))"
    using assms(2) by blast
  then show ?thesis by (simp add: dailyStats_upsert processBackgroundTasks_def)
qed

lemma createMeetingRecord_total:
  assumes "createMeetingRecord env dto audioFile st = (Inr v, st')"
    and "d = newDate env (recordingDate (getCurrentDateData env))"
  shows "totalRecordingsAt st' d = totalRecordingsAt st d + 1"
  using createMeetingRecord_dailyStats[OF assms]
  by (simp add: totalRecordingsAt_def split: option.splits)

lemma createMany_total:
  assumes "\<forall>c \<in> set calls. newDate (fst c) (recordingDate (getCurrentDateData (fst c))) = d"
    and "\<forall>r \<in> set (fst (createMany calls st)). \<not> isl r"
  shows "totalRecordingsAt (snd (createMany calls st)) d = totalRecordingsAt st d + int (length calls)"
  using assms
proof (induction calls arbitrary: st)
  case Nil
  then show ?case by simp
next
  case (Cons c calls)
  obtain env dto audioFile where c: "c = (env, dto, audioFile)" by (cases c)
  obtain r st1 where r: "createMeetingRecord env dto audioFile st = (r, st1)"
    by (cases "createMeetingRecord env dto audioFile st")
  obtain rs st2 where rs: "createMany calls st1 = (rs, st2)" by (cases "createMany calls st1")
  from Cons.prems(2) c r rs have nr: "\<not> isl r" and nrs: "\<forall>x \<in> set (fst (createMany calls st1)). \<not> isl x"
    by auto
  from nr obtain v where "r = Inr v" by (cases r) auto
  with r have r': "createMeetingRecord env dto audioFile st = (Inr v, st1)" by simp
  from Cons.prems(1) c have d: "d = newDate env (recordingDate (getCurrentDateData env))" by simp
  from Cons.prems(1) have "\<forall>c \<in> set calls. newDate (fst c) (recordingDate (getCurrentDateData (fst c))) = d"
    by simp
  from Cons.IH[OF this nrs]
  have "totalRecordingsAt (snd (createMany calls st1)) d = totalRecordingsAt st1 d + int (length calls)" .
  with createMeetingRecord_total[OF r' d] c r rs show ?case by simp
qed

text \<open>
  C6. When the validation service rejects the transcription, \<^verbatim>\<open>createMeetingRecord\<close>
  fails with the \<^verbatim>\<open>BadRequestException\<close> of code \<^verbatim>\<open>INVALID_MESSAGE_FORMAT\<close> that carries
  the message and the errors of the validation result as they are, and the store is
  unchanged: no record is persisted, no statistics are updated, nothing is scheduled.
\<close>

theorem createMeetingRecord_rejected:
  assumes "\<not> isValid (validateTranscriptionService env (fullTranscription dto))"
  shows "createMeetingRecord env dto audioFile st =
           (Inl (BadRequestObject (js ''INVALID_MESSAGE_FORMAT'')
                   (message (validateTranscriptionService env (fullTranscription dto)))
                   (errors (validateTranscriptionService env (fullTranscription dto)))),
            st)"
  using assms by (simp add: createMeetingRecord_def Let_def)

text \<open>
  C7. A call of \<^verbatim>\<open>createMeetingRecord\<close> that returns a record has changed the daily
  statistics by one upsert at the derived date: an existing row has
  \<open>totalRecordings\<close> and \<open>successfulRecordings\<close> increased by one and its other fields
  unchanged, a missing row is created with both at 1, \<open>uniqueGroups\<close> and
  \<open>uniqueSpeakers\<close> at 1 and the rest at 0; rows of other dates are untouched. Hence a
  run of successful calls that all derive the date \<open>k\<close> raises \<open>totalRecordings\<close> of \<open>k\<close>
  by the number of calls (a missing row counting as 0).
\<close>

theorem createMeetingRecord_statistics:
  "(createMeetingRecord env dto audioFile st = (Inr v, st') \<and>
    d = newDate env (recordingDate (getCurrentDateData env)) \<longrightarrow>
      dailyStats st' =
        (dailyStats st)(d \<mapsto>
           (case dailyStats st d of
              Some row \<Rightarrow> row\<lparr>totalRecordings := totalRecordings row + 1,
                              successfulRecordings := successfulRecordings row + 1\<rparr>
            | None \<Rightarrow> \<lparr>date = d, totalRecordings = 1, successfulRecordings = 1,
                       failedRecordings = 0, uniqueGroups = 1, uniqueSpeakers = 1,
                       averageDuration = 0\<rparr>))) \<and>
   ((\<forall>c \<in> set calls. newDate (fst c) (recordingDate (getCurrentDateData (fst c))) = k) \<and>
    (\<forall>r \<in> set (fst (createMany calls st0)). \<not> isl r) \<longrightarrow>
      totalRecordingsAt (snd (createMany calls st0)) k =
        totalRecordingsAt st0 k + int (length calls))"
  using createMeetingRecord_dailyStats[of env dto audioFile st v st' d]
    createMany_total[of calls k st0]
  by blast

text \<open>
  C10. When the validation passes and \<^verbatim>\<open>create\<close> succeeds but the upsert of the daily
  statistics rejects, the caller gets the generic failure
  \<^verbatim>\<open>Failed to create meeting record\<close>, and the new record is in the table all the same;
  the statistics are unchanged.
\<close>

theorem createMeetingRecord_not_atomic:
  assumes "isValid (validateTranscriptionService env (fullTranscription dto))"
    and "extractedData (validateTranscriptionService env (fullTranscription dto)) = Some extracted"
    and "createResult env = Some newId"
    and "upsertThrows env"
  shows "\<exists>st'. createMeetingRecord env dto audioFile st =
                  (Inl (BadRequestText (js ''Failed to create meeting record'')), st') \<and>
               meetingRecords st' = meetingRecords st @
                 [createData env dto audioFile
                    (validateTranscriptionService env (fullTranscription dto))
                    (getCurrentDateData env) extracted newId] \<and>
               dailyStats st' = dailyStats st"
  using assms
  by (simp add: createMeetingRecord_def Let_def updateDailyStatistics_def
                processBackgroundTasks_def)


subsection \<open>The service in the concrete setting\<close>

lemma webValidator_valid:
  "webValidator (fullTranscription validDto) =
     \<lparr>isValid = True,
      message = [9989] @ js '' Perfect! The message follows the required format.'',
      extractedData = Some \<lparr>speakerName = js ''John Smith'', groupNumber = js ''5'',
                             personMet = js ''Sarah Johnson'', location = js ''the coffee shop''\<rparr>,
      errors = None, confidence = None\<rparr>"
  by (simp add: webValidator_def validDto_def example_valid_result)

lemma webValidator_malformed:
  "webValidator (fullTranscription malformedDto) =
     \<lparr>isValid = False,
      message = [10060] @ js '' Please follow the exact format: '' @ [34] @
                js ''My name is [name] and I belong to group [#] and today I met [name] at [location].'' @ [34],
      extractedData = None, errors = None, confidence = None\<rparr>"
  by (simp add: webValidator_def malformedDto_def validateTranscription_def match_defs)

theorem createMeetingRecord_rejected_witness:
  "\<not> isValid (validateTranscriptionService exampleEnv (fullTranscription malformedDto)) \<and>
   createMeetingRecord exampleEnv malformedDto None emptyStore =
     (Inl (BadRequestObject (js ''INVALID_MESSAGE_FORMAT'')
        ([10060] @ js '' Please follow the exact format: '' @ [34] @
         js ''My name is [name] and I belong to group [#] and today I met [name] at [location].'' @ [34])
        None),
      emptyStore)"
proof -
  have v: "validateTranscriptionService exampleEnv (fullTranscription malformedDto) =
     \<lparr>isValid = False,
      message = [10060] @ js '' Please follow the exact format: '' @ [34] @
                js ''My name is [name] and I belong to group [#] and today I met [name] at [location].'' @ [34],
      extractedData = None, errors = None, confidence = None\<rparr>"
    by (simp add: exampleEnv_def webValidator_malformed)
  then have h: "\<not> isValid (validateTranscriptionService exampleEnv (fullTranscription malformedDto))"
    by simp
  from createMeetingRecord_rejected[OF h, of None emptyStore] h v show ?thesis by simp
qed

lemma mr_id_createData: "mr_id (createData env dto a vr dd ex newId) = newId"
  by (simp add: createData_def)

lemma example_create:
  "createMeetingRecord exampleEnv validDto None emptyStore =
     (Inr (createData exampleEnv validDto None (webValidator (fullTranscription validDto))
             exampleDateData
             \<lparr>speakerName = js ''John Smith'', groupNumber = js ''5'',
              personMet = js ''Sarah Johnson'', location = js ''the coffee shop''\<rparr> (js ''rec1'')),
      \<lparr>meetingRecords =
         [createData exampleEnv validDto None (webValidator (fullTranscription validDto))
             exampleDateData
             \<lparr>speakerName = js ''John Smith'', groupNumber = js ''5'',
              personMet = js ''Sarah Johnson'', location = js ''the coffee shop''\<rparr> (js ''rec1'')],
       dailyStats = [1753574400000 \<mapsto>
          \<lparr>date = 1753574400000, totalRecordings = 1, successfulRecordings = 1,
           failedRecordings = 0, uniqueGroups = 1, uniqueSpeakers = 1, averageDuration = 0\<rparr>],
       scheduled = [js ''rec1'']\<rparr>)"
proof -
  have v: "validateTranscriptionService exampleEnv = webValidator"
    and c: "createResult exampleEnv = Some (js ''rec1'')"
    and u: "\<not> upsertThrows exampleEnv"
    and g: "getCurrentDateData exampleEnv = exampleDateData"
    and f: "formatMeetingRecord exampleEnv = (\<lambda>r. r)"
    and n: "newDate exampleEnv (recordingDate exampleDateData) = 1753574400000"
    by (simp_all add: exampleEnv_def exampleDateData_def)
  show ?thesis
    unfolding createMeetingRecord_def v c g
    by (simp add: webValidator_valid[simplified] Let_def u f n mr_id_createData updateDailyStatistics_def
        processBackgroundTasks_def upsertDailyStats_def emptyStore_def del: )
qed


lemma createMeetingRecord_success:
  assumes "validateTranscriptionService env (fullTranscription dto) = vr"
    and "isValid vr" and "extractedData vr = Some ex"
    and "createResult env = Some newId" and "\<not> upsertThrows env"
  shows "createMeetingRecord env dto a st =
           (Inr (formatMeetingRecord env (createData env dto a vr (getCurrentDateData env) ex newId)),
            upsertDailyStats (newDate env (recordingDate (getCurrentDateData env)))
              (processBackgroundTasks newId
                 (st\<lparr>meetingRecords := meetingRecords st @
                      [createData env dto a vr (getCurrentDateData env) ex newId]\<rparr>)))"
  using assms
  by (simp add: createMeetingRecord_def Let_def updateDailyStatistics_def mr_id_createData)

theorem createMeetingRecord_statistics_witness:
  "\<not> isl (fst (createMeetingRecord exampleEnv validDto None emptyStore)) \<and>
   dailyStats (snd (createMeetingRecord exampleEnv validDto None emptyStore)) =
     [1753574400000 \<mapsto>
        \<lparr>date = 1753574400000, totalRecordings = 1, successfulRecordings = 1,
         failedRecordings = 0, uniqueGroups = 1, uniqueSpeakers = 1, averageDuration = 0\<rparr>] \<and>
   list_all (\<lambda>c. newDate (fst c) (recordingDate (getCurrentDateData (fst c))) = 1753574400000)
     [(exampleEnv, validDto, None :: MulterFile option), (exampleEnv\<lparr>createResult := Some (js ''rec2'')\<rparr>, validDto, None)] \<and>
   list_all (\<lambda>r. \<not> isl r)
     (fst (createMany [(exampleEnv, validDto, None :: MulterFile option),
                       (exampleEnv\<lparr>createResult := Some (js ''rec2'')\<rparr>, validDto, None)] emptyStore)) \<and>
   totalRecordingsAt
     (snd (createMany [(exampleEnv, validDto, None :: MulterFile option),
                       (exampleEnv\<lparr>createResult := Some (js ''rec2'')\<rparr>, validDto, None)] emptyStore))
     1753574400000 = 2"
proof -
  let ?env2 = "exampleEnv\<lparr>createResult := Some (js ''rec2'')\<rparr>"
  let ?calls = "[(exampleEnv, validDto, None :: MulterFile option), (?env2, validDto, None)]"
  let ?d = "1753574400000 :: int"
  obtain v st' where c: "createMeetingRecord exampleEnv validDto None emptyStore = (Inr v, st')"
    using example_create by blast
  have d1: "?d = newDate exampleEnv (recordingDate (getCurrentDateData exampleEnv))"
    by (simp add: exampleEnv_def exampleDateData_def)
  have d2: "?d = newDate ?env2 (recordingDate (getCurrentDateData ?env2))"
    by (simp add: exampleEnv_def exampleDateData_def)
  have dates: "\<forall>c \<in> set ?calls. newDate (fst c) (recordingDate (getCurrentDateData (fst c))) = ?d"
    using d1 d2 by simp
  have v2: "validateTranscriptionService ?env2 (fullTranscription validDto) =
              webValidator (fullTranscription validDto)"
    and c2: "createResult ?env2 = Some (js ''rec2'')" and u2: "\<not> upsertThrows ?env2"
    by (simp_all add: exampleEnv_def)
  have iv: "isValid (webValidator (fullTranscription validDto))"
    and ex: "extractedData (webValidator (fullTranscription validDto)) =
       Some \<lparr>speakerName = js ''John Smith'', groupNumber = js ''5'',
              personMet = js ''Sarah Johnson'', location = js ''the coffee shop''\<rparr>"
    by (simp_all add: webValidator_valid)
  have ok: "\<forall>r \<in> set (fst (createMany ?calls emptyStore)). \<not> isl r"
    by (simp add: c createMeetingRecord_success[OF v2 iv ex c2 u2])
  note th = createMeetingRecord_statistics[of exampleEnv validDto None emptyStore v st' ?d ?calls ?d emptyStore]
  have s: "dailyStats st' =
        (dailyStats emptyStore)(?d \<mapsto>
           (case dailyStats emptyStore ?d of
              Some row \<Rightarrow> row\<lparr>totalRecordings := totalRecordings row + 1,
                              successfulRecordings := successfulRecordings row + 1\<rparr>
            | None \<Rightarrow> \<lparr>date = ?d, totalRecordings = 1, successfulRecordings = 1,
                       failedRecordings = 0, uniqueGroups = 1, uniqueSpeakers = 1,
                       averageDuration = 0\<rparr>))"
    by (intro mp[OF th[THEN conjunct1]] conjI c d1)
  have t: "totalRecordingsAt (snd (createMany ?calls emptyStore)) ?d =
        totalRecordingsAt emptyStore ?d + int (length ?calls)"
  proof (rule mp[OF th[THEN conjunct2]])
    show "(\<forall>c \<in> set ?calls. newDate (fst c) (recordingDate (getCurrentDateData (fst c))) = ?d) \<and>
          (\<forall>r \<in> set (fst (createMany ?calls emptyStore)). \<not> isl r)"
      using dates ok by (rule conjI)
  qed
  from s c have 2: "dailyStats (snd (createMeetingRecord exampleEnv validDto None emptyStore)) =
     [?d \<mapsto> \<lparr>date = ?d, totalRecordings = 1, successfulRecordings = 1,
         failedRecordings = 0, uniqueGroups = 1, uniqueSpeakers = 1, averageDuration = 0\<rparr>]"
    by (simp add: emptyStore_def)
  from t have 5: "totalRecordingsAt (snd (createMany ?calls emptyStore)) ?d = 2"
    by (simp add: totalRecordingsAt_def emptyStore_def)
  from c have 1: "\<not> isl (fst (createMeetingRecord exampleEnv validDto None emptyStore))" by simp
  from dates have 3: "list_all (\<lambda>c. newDate (fst c) (recordingDate (getCurrentDateData (fst c))) = ?d) ?calls"
    unfolding list_all_iff .
  from ok have 4: "list_all (\<lambda>r. \<not> isl r) (fst (createMany ?calls emptyStore))"
    unfolding list_all_iff .
  from 1 2 3 4 5 show ?thesis by blast
qed

theorem createMeetingRecord_not_atomic_witness:
  "isValid (validateTranscriptionService (exampleEnv\<lparr>upsertThrows := True\<rparr>) (fullTranscription validDto)) \<and>
   extractedData (validateTranscriptionService (exampleEnv\<lparr>upsertThrows := True\<rparr>) (fullTranscription validDto)) =
     Some \<lparr>speakerName = js ''John Smith'', groupNumber = js ''5'',
            personMet = js ''Sarah Johnson'', location = js ''the coffee shop''\<rparr> \<and>
   createResult (exampleEnv\<lparr>upsertThrows := True\<rparr>) = Some (js ''rec1'') \<and>
   upsertThrows (exampleEnv\<lparr>upsertThrows := True\<rparr>) \<and>
   fst (createMeetingRecord (exampleEnv\<lparr>upsertThrows := True\<rparr>) validDto None emptyStore) =
     Inl (BadRequestText (js ''Failed to create meeting record'')) \<and>
   map mr_id (meetingRecords
     (snd (createMeetingRecord (exampleEnv\<lparr>upsertThrows := True\<rparr>) validDto None emptyStore))) =
     [js ''rec1''] \<and>
   dailyStats (snd (createMeetingRecord (exampleEnv\<lparr>upsertThrows := True\<rparr>) validDto None emptyStore)) =
     Map.empty"
proof -
  let ?env = "exampleEnv\<lparr>upsertThrows := True\<rparr>"
  let ?ex = "\<lparr>speakerName = js ''John Smith'', groupNumber = js ''5'',
            personMet = js ''Sarah Johnson'', location = js ''the coffee shop''\<rparr>"
  have v: "validateTranscriptionService ?env (fullTranscription validDto) =
              webValidator (fullTranscription validDto)"
    by (simp add: exampleEnv_def)
  have 1: "isValid (validateTranscriptionService ?env (fullTranscription validDto))"
    and 2: "extractedData (validateTranscriptionService ?env (fullTranscription validDto)) = Some ?ex"
    unfolding v by (simp_all add: webValidator_valid)
  have 3: "createResult ?env = Some (js ''rec1'')" and 4: "upsertThrows ?env"
    by (simp_all add: exampleEnv_def)
  from createMeetingRecord_not_atomic[OF 1 2 3 4, of None emptyStore]
  obtain st' where r: "createMeetingRecord ?env validDto None emptyStore =
       (Inl (BadRequestText (js ''Failed to create meeting record'')), st')"
    and m: "meetingRecords st' = meetingRecords emptyStore @
                 [createData ?env validDto None
                    (validateTranscriptionService ?env (fullTranscription validDto))
                    (getCurrentDateData ?env) ?ex (js ''rec1'')]"
    and ds: "dailyStats st' = dailyStats emptyStore" by blast
  from r m have 6: "map mr_id (meetingRecords (snd (createMeetingRecord ?env validDto None emptyStore))) =
     [js ''rec1'']" by (simp add: emptyStore_def mr_id_createData)
  from r ds have 7: "dailyStats (snd (createMeetingRecord ?env validDto None emptyStore)) = Map.empty"
    by (simp add: emptyStore_def)
  from r have 5: "fst (createMeetingRecord ?env validDto None emptyStore) =
     Inl (BadRequestText (js ''Failed to create meeting record''))" by simp
  from 1 2 3 4 5 6 7 show ?thesis by blast
qed

section \<open>Properties of the synchronisation\<close>

subsection \<open>The loop\<close>

lemma mr_id_markSynced: "mr_id (markSynced env x r) = mr_id r"
  by (simp add: markSynced_def)

lemma markFor_Cons_completes:
  assumes "pushCompletes env x" and "mr_id x \<notin> mr_id ` set rest"
  shows "markFor env rest (if mr_id r = mr_id x then markSynced env x r else r) =
         markFor env (x # rest) r"
proof (cases "mr_id r = mr_id x")
  case True
  have "find (\<lambda>y. mr_id y = mr_id x \<and> pushCompletes env y) rest = None"
    unfolding find_None_iff
  proof
    assume "\<exists>y. y \<in> set rest \<and> mr_id y = mr_id x \<and> pushCompletes env y"
    then obtain y where "y \<in> set rest" "mr_id y = mr_id x" by blast
    then have "mr_id x \<in> mr_id ` set rest" by (metis imageI)
    with assms(2) show False by simp
  qed
  with True assms(1) show ?thesis by (simp add: markFor_def mr_id_markSynced)
next
  case False
  then have "(mr_id x = mr_id r) = False" by auto
  with False show ?thesis by (simp add: markFor_def)
qed

lemma markFor_Cons_fails:
  assumes "\<not> pushCompletes env x"
  shows "markFor env (x # rest) r = markFor env rest r"
  using assms by (simp add: markFor_def)

lemma syncLoop_result:
  assumes "distinct (map mr_id recs)"
    and "\<forall>x \<in> set recs. \<exists>r \<in> set (meetingRecords st). mr_id r = mr_id x"
  shows "syncLoop env recs (st, s, e) =
           (st\<lparr>meetingRecords := map (markFor env recs) (meetingRecords st)\<rparr>,
            s + length (filter (pushCompletes env) recs),
            e + length (filter (\<lambda>r. \<not> pushCompletes env r) recs))"
  using assms
proof (induction recs arbitrary: st s e)
  case Nil
  have "map (markFor env []) (meetingRecords st) = meetingRecords st"
    by (rule map_idI) (simp add: markFor_def)
  then show ?case by simp
next
  case (Cons x rest)
  from Cons.prems have d: "distinct (map mr_id rest)" and nx: "mr_id x \<notin> mr_id ` set rest"
    by auto
  from Cons.prems(2) have ex: "\<exists>r \<in> set (meetingRecords st). mr_id r = mr_id x" by simp
  show ?case
  proof (cases "pushCompletes env x")
    case True
    then obtain rowId where a: "addRecord env x = Some rowId" and u: "\<not> updateThrows env (mr_id x)"
      by (auto simp: pushCompletes_def)
    let ?st1 = "st\<lparr>meetingRecords :=
                    map (\<lambda>r. if mr_id r = mr_id x then markSynced env x r else r) (meetingRecords st)\<rparr>"
    have upd: "updateRecord (mr_id x)
                 (\<lambda>r. r\<lparr>mr_syncedToSheets := True, mr_googleSheetsRowId := Some rowId,
                        mr_sheetsLastSync := Some (newDateNow env x)\<rparr>) st = Some ?st1"
      using ex a by (simp add: updateRecord_def markSynced_def)
    have step: "syncLoop env (x # rest) (st, s, e) = syncLoop env rest (?st1, s + 1, e)"
      using a u upd by simp
    have pre: "\<forall>y \<in> set rest. \<exists>r \<in> set (meetingRecords ?st1). mr_id r = mr_id y"
    proof
      fix y assume "y \<in> set rest"
      with Cons.prems(2) obtain r where r: "r \<in> set (meetingRecords st)" "mr_id r = mr_id y"
        by auto
      let ?r' = "if mr_id r = mr_id x then markSynced env x r else r"
      from r(1) have "?r' \<in> set (meetingRecords ?st1)" by simp
      moreover from r(2) have "mr_id ?r' = mr_id y" by (simp add: mr_id_markSynced)
      ultimately show "\<exists>r \<in> set (meetingRecords ?st1). mr_id r = mr_id y" by blast
    qed
    have m: "map (markFor env rest) (meetingRecords ?st1) =
             map (markFor env (x # rest)) (meetingRecords st)"
      using markFor_Cons_completes[OF True nx] by (simp add: comp_def)
    from Cons.IH[OF d pre, of "s + 1" e] step m True show ?thesis by simp
  next
    case False
    have step: "syncLoop env (x # rest) (st, s, e) = syncLoop env rest (st, s, e + 1)"
    proof (cases "addRecord env x")
      case None
      then show ?thesis by simp
    next
      case (Some rowId)
      with False have "updateThrows env (mr_id x)" by (simp add: pushCompletes_def)
      with Some show ?thesis by simp
    qed
    from Cons.prems(2) have pre: "\<forall>y \<in> set rest. \<exists>r \<in> set (meetingRecords st). mr_id r = mr_id y"
      by simp
    have m: "map (markFor env (x # rest)) (meetingRecords st) =
             map (markFor env rest) (meetingRecords st)"
      using markFor_Cons_fails[OF False] by simp
    from Cons.IH[OF d pre, of s "e + 1"] step m False show ?thesis by simp
  qed
qed


subsection \<open>The batch and the outcome of a pass\<close>

lemma find_SomeD: "find P xs = Some x \<Longrightarrow> P x \<and> x \<in> set xs"
  by (induction xs) (auto split: if_splits)

lemma markFor_table:
  assumes "distinct (map mr_id table)" and "set batch \<subseteq> set table" and "r \<in> set table"
  shows "markFor env batch r =
           (if r \<in> set batch \<and> pushCompletes env r then markSynced env r r else r)"
proof -
  from assms(1) have inj: "inj_on mr_id (set table)" by (simp add: distinct_map)
  show ?thesis
  proof (cases "find (\<lambda>x. mr_id x = mr_id r \<and> pushCompletes env x) batch")
    case None
    then have n: "\<not> (r \<in> set batch \<and> pushCompletes env r)" by (auto simp: find_None_iff)
    from None have "markFor env batch r = r" by (simp add: markFor_def)
    with n show ?thesis by auto
  next
    case (Some x)
    from find_SomeD[OF Some] have x: "mr_id x = mr_id r" "pushCompletes env x" "x \<in> set batch"
      by auto
    with assms(2,3) inj have "x = r" by (auto dest: inj_onD)
    with x Some show ?thesis by (simp add: markFor_def)
  qed
qed

lemma findManyUnsynced_length: "length (findManyUnsynced st) \<le> 100"
  by (simp add: findManyUnsynced_def)

lemma findManyUnsynced_sorted: "sorted (map mr_recordingDate (findManyUnsynced st))"
proof -
  let ?xs = "sort_key mr_recordingDate (filter (\<lambda>r. mr_syncedToSheets r = False) (meetingRecords st))"
  have "sorted (map mr_recordingDate ?xs)" by (rule sorted_sort_key)
  then have "sorted (take 100 (map mr_recordingDate ?xs))" by (rule sorted_wrt_take)
  then show ?thesis by (simp add: findManyUnsynced_def take_map)
qed

lemma findManyUnsynced_subset:
  "r \<in> set (findManyUnsynced st) \<Longrightarrow> r \<in> set (meetingRecords st) \<and> \<not> mr_syncedToSheets r"
  by (auto simp: findManyUnsynced_def dest: in_set_takeD)

lemma findManyUnsynced_oldest:
  assumes "r \<in> set (findManyUnsynced st)" and "u \<in> set (meetingRecords st)"
    and "\<not> mr_syncedToSheets u" and "u \<notin> set (findManyUnsynced st)"
  shows "mr_recordingDate r \<le> mr_recordingDate u"
proof -
  let ?xs = "sort_key mr_recordingDate (filter (\<lambda>r. mr_syncedToSheets r = False) (meetingRecords st))"
  have s: "sorted (map mr_recordingDate (take 100 ?xs) @ map mr_recordingDate (drop 100 ?xs))"
    using sorted_sort_key[of mr_recordingDate] by (simp flip: map_append)
  from assms(2,3) have "u \<in> set ?xs" by simp
  then have "u \<in> set (take 100 ?xs) \<union> set (drop 100 ?xs)"
    by (simp flip: set_append)
  with assms(4) have u: "u \<in> set (drop 100 ?xs)" by (simp add: findManyUnsynced_def)
  from assms(1) have r: "r \<in> set (take 100 ?xs)" by (simp add: findManyUnsynced_def)
  from s r u show ?thesis unfolding sorted_append by auto
qed

lemma findManyUnsynced_distinct:
  assumes "distinct (map mr_id (meetingRecords st))"
  shows "distinct (map mr_id (findManyUnsynced st))"
proof -
  from assms have d: "distinct (meetingRecords st)" and inj: "inj_on mr_id (set (meetingRecords st))"
    by (simp_all add: distinct_map)
  have sub: "set (findManyUnsynced st) \<subseteq> set (meetingRecords st)"
    using findManyUnsynced_subset by blast
  from d have "distinct (findManyUnsynced st)" by (simp add: findManyUnsynced_def)
  moreover from inj sub have "inj_on mr_id (set (findManyUnsynced st))" by (rule inj_on_subset)
  ultimately show ?thesis by (simp add: distinct_map)
qed

lemma count_split: "length (filter P xs) + length (filter (\<lambda>x. \<not> P x) xs) = length xs"
  by (induction xs) auto

lemma syncToGoogleSheets_result:
  assumes "distinct (map mr_id (meetingRecords st))" and "\<not> findThrows env"
  shows "syncToGoogleSheets env st =
     (Inr \<lparr>r_synced = length (filter (pushCompletes env) (findManyUnsynced st)),
           r_errors = length (filter (\<lambda>r. \<not> pushCompletes env r) (findManyUnsynced st))\<rparr>,
      st\<lparr>meetingRecords :=
           map (\<lambda>r. if r \<in> set (findManyUnsynced st) \<and> pushCompletes env r
                    then markSynced env r r else r) (meetingRecords st)\<rparr>)"
proof -
  let ?batch = "findManyUnsynced st"
  have sub: "set ?batch \<subseteq> set (meetingRecords st)" using findManyUnsynced_subset by blast
  then have pre: "\<forall>x \<in> set ?batch. \<exists>r \<in> set (meetingRecords st). mr_id r = mr_id x" by blast
  have m: "map (markFor env ?batch) (meetingRecords st) =
           map (\<lambda>r. if r \<in> set ?batch \<and> pushCompletes env r then markSynced env r r else r)
             (meetingRecords st)"
    using markFor_table[OF assms(1) sub] by simp
  from syncLoop_result[OF findManyUnsynced_distinct[OF assms(1)] pre, of env 0 0] m assms(2)
  show ?thesis by (simp add: syncToGoogleSheets_def)
qed

text \<open>
  C8, amended. With unique record ids and a \<^verbatim>\<open>findMany\<close> that does not reject,
  \<^verbatim>\<open>syncToGoogleSheets\<close> returns counts. The batch it processes holds at most 100
  records, all unsynchronised, in ascending order of \<^verbatim>\<open>recordingDate\<close>, and no
  unsynchronised record outside the batch is older than one inside. Every record of the
  batch is processed, a failure does not stop the loop, and \<open>synced + errors\<close> is the size
  of the batch. Afterwards exactly the records of the batch whose push returned a row id
  and whose update did not reject are marked \<open>syncedToSheets = True\<close>, with that row id
  and the time of the update; every other record, a record whose push or update failed
  included, is as it was, and the statistics are untouched.
\<close>

theorem syncToGoogleSheets_outcome:
  assumes "distinct (map mr_id (meetingRecords st))" and "\<not> findThrows env"
  shows "\<exists>res st'. syncToGoogleSheets env st = (Inr res, st') \<and>
     length (findManyUnsynced st) \<le> 100 \<and>
     sorted (map mr_recordingDate (findManyUnsynced st)) \<and>
     (\<forall>r \<in> set (findManyUnsynced st). r \<in> set (meetingRecords st) \<and> \<not> mr_syncedToSheets r) \<and>
     (\<forall>r \<in> set (findManyUnsynced st). \<forall>u \<in> set (meetingRecords st).
        \<not> mr_syncedToSheets u \<and> u \<notin> set (findManyUnsynced st) \<longrightarrow>
        mr_recordingDate r \<le> mr_recordingDate u) \<and>
     r_synced res + r_errors res = length (findManyUnsynced st) \<and>
     r_synced res = length (filter (pushCompletes env) (findManyUnsynced st)) \<and>
     meetingRecords st' =
       map (\<lambda>r. if r \<in> set (findManyUnsynced st) \<and> pushCompletes env r
                then r\<lparr>mr_syncedToSheets := True,
                       mr_googleSheetsRowId := addRecord env r,
                       mr_sheetsLastSync := Some (newDateNow env r)\<rparr>
                else r) (meetingRecords st) \<and>
     dailyStats st' = dailyStats st \<and> scheduled st' = scheduled st"
proof -
  let ?batch = "findManyUnsynced st"
  let ?res = "\<lparr>r_synced = length (filter (pushCompletes env) ?batch),
               r_errors = length (filter (\<lambda>r. \<not> pushCompletes env r) ?batch)\<rparr>"
  let ?st' = "st\<lparr>meetingRecords :=
           map (\<lambda>r. if r \<in> set ?batch \<and> pushCompletes env r
                    then markSynced env r r else r) (meetingRecords st)\<rparr>"
  have 1: "syncToGoogleSheets env st = (Inr ?res, ?st')"
    by (rule syncToGoogleSheets_result[OF assms])
  have 2: "\<forall>r \<in> set ?batch. r \<in> set (meetingRecords st) \<and> \<not> mr_syncedToSheets r"
    using findManyUnsynced_subset by blast
  have 3: "\<forall>r \<in> set ?batch. \<forall>u \<in> set (meetingRecords st).
        \<not> mr_syncedToSheets u \<and> u \<notin> set ?batch \<longrightarrow> mr_recordingDate r \<le> mr_recordingDate u"
    using findManyUnsynced_oldest by blast
  have 4: "r_synced ?res + r_errors ?res = length ?batch" by (simp add: count_split)
  have 5: "meetingRecords ?st' =
       map (\<lambda>r. if r \<in> set ?batch \<and> pushCompletes env r
                then r\<lparr>mr_syncedToSheets := True,
                       mr_googleSheetsRowId := addRecord env r,
                       mr_sheetsLastSync := Some (newDateNow env r)\<rparr>
                else r) (meetingRecords st)"
    by (simp add: markSynced_def)
  have 6: "r_synced ?res = length (filter (pushCompletes env) ?batch)" by simp
  have 7: "dailyStats ?st' = dailyStats st \<and> scheduled ?st' = scheduled st" by simp
  from 1 findManyUnsynced_length[of st] findManyUnsynced_sorted[of st] 2 3 4 5 6 7
  show ?thesis by blast
qed


subsection \<open>The synchronisation in the concrete setting\<close>

lemma exampleRow_sel:
  "mr_id (exampleRow i d) = i" "mr_recordingDate (exampleRow i d) = d"
  "mr_syncedToSheets (exampleRow i d) = False" "mr_googleSheetsRowId (exampleRow i d) = None"
  "mr_sheetsLastSync (exampleRow i d) = None"
  by (simp_all add: exampleRow_def)

lemma exampleRow_eq: "exampleRow i d = exampleRow j e \<longleftrightarrow> i = j \<and> d = e"
  by (auto simp: exampleRow_def)

lemma exampleSheet_sel:
  "addRecord exampleSheet r = (if mr_id r = js ''c'' then None else Some (js ''row-'' @ mr_id r))"
  "updateThrows exampleSheet rid = False" "findThrows exampleSheet = False"
  "newDateNow exampleSheet r = 1753610400000"
  by (simp_all add: exampleSheet_def)

text \<open>
  C8, as stated, fails: the \<^verbatim>\<open>try\<close> block holds the update of the record as well as the
  push. Here the sheet accepts the record \<^verbatim>\<open>a\<close> and returns the row id \<^verbatim>\<open>row-a\<close>, the
  update rejects, and the pass ends with the pushed record counted as an error and
  still unsynchronised. And when the \<^verbatim>\<open>findMany\<close> at the start rejects, nothing catches
  it: the call rejects and returns no counts.
\<close>

theorem pushed_but_unmarked_counterexample:
  "findManyUnsynced (emptyStore\<lparr>meetingRecords := [exampleRow (js ''a'') 1]\<rparr>) =
     [exampleRow (js ''a'') 1] \<and>
   addRecord (exampleSheet\<lparr>updateThrows := (\<lambda>rid. True)\<rparr>) (exampleRow (js ''a'') 1) =
     Some (js ''row-a'') \<and>
   syncToGoogleSheets (exampleSheet\<lparr>updateThrows := (\<lambda>rid. True)\<rparr>)
       (emptyStore\<lparr>meetingRecords := [exampleRow (js ''a'') 1]\<rparr>) =
     (Inr \<lparr>r_synced = 0, r_errors = 1\<rparr>,
      emptyStore\<lparr>meetingRecords := [exampleRow (js ''a'') 1]\<rparr>) \<and>
   mr_syncedToSheets (exampleRow (js ''a'') 1) = False \<and>
   fst (syncToGoogleSheets (exampleSheet\<lparr>findThrows := True\<rparr>)
          (emptyStore\<lparr>meetingRecords := [exampleRow (js ''a'') 1]\<rparr>)) = Inl StorageError"
proof -
  let ?st = "emptyStore\<lparr>meetingRecords := [exampleRow (js ''a'') 1]\<rparr>"
  let ?env = "exampleSheet\<lparr>updateThrows := (\<lambda>rid. True)\<rparr>"
  have b: "findManyUnsynced ?st = [exampleRow (js ''a'') 1]"
    by (simp add: findManyUnsynced_def exampleRow_sel)
  have a: "addRecord ?env (exampleRow (js ''a'') 1) = Some (js ''row-a'')"
    by (simp add: exampleSheet_def exampleRow_sel js_def)
  have u: "updateThrows ?env (js ''a'')" and f: "\<not> findThrows ?env"
    by (simp_all add: exampleSheet_def)
  have "syncToGoogleSheets ?env ?st = (Inr \<lparr>r_synced = 0, r_errors = 1\<rparr>, ?st)"
    unfolding syncToGoogleSheets_def b using a u f by (simp add: exampleRow_sel)
  moreover have "fst (syncToGoogleSheets (exampleSheet\<lparr>findThrows := True\<rparr>) ?st) = Inl StorageError"
    by (simp add: syncToGoogleSheets_def)
  ultimately show ?thesis using a b by (simp add: exampleRow_sel)
qed

theorem syncToGoogleSheets_outcome_witness:
  "distinct (map mr_id (meetingRecords
     (emptyStore\<lparr>meetingRecords :=
        [exampleRow (js ''a'') 3, exampleRow (js ''b'') 1, exampleRow (js ''c'') 2]\<rparr>))) \<and>
   \<not> findThrows exampleSheet \<and>
   findManyUnsynced (emptyStore\<lparr>meetingRecords :=
        [exampleRow (js ''a'') 3, exampleRow (js ''b'') 1, exampleRow (js ''c'') 2]\<rparr>) =
     [exampleRow (js ''b'') 1, exampleRow (js ''c'') 2, exampleRow (js ''a'') 3] \<and>
   fst (syncToGoogleSheets exampleSheet (emptyStore\<lparr>meetingRecords :=
        [exampleRow (js ''a'') 3, exampleRow (js ''b'') 1, exampleRow (js ''c'') 2]\<rparr>)) =
     Inr \<lparr>r_synced = 2, r_errors = 1\<rparr> \<and>
   map (\<lambda>r. (mr_id r, mr_syncedToSheets r, mr_googleSheetsRowId r, mr_sheetsLastSync r))
     (meetingRecords (snd (syncToGoogleSheets exampleSheet (emptyStore\<lparr>meetingRecords :=
        [exampleRow (js ''a'') 3, exampleRow (js ''b'') 1, exampleRow (js ''c'') 2]\<rparr>)))) =
     [(js ''a'', True, Some (js ''row-a''), Some 1753610400000),
      (js ''b'', True, Some (js ''row-b''), Some 1753610400000),
      (js ''c'', False, None, None)]"
proof -
  let ?st = "emptyStore\<lparr>meetingRecords :=
        [exampleRow (js ''a'') 3, exampleRow (js ''b'') 1, exampleRow (js ''c'') 2]\<rparr>"
  have d: "distinct (map mr_id (meetingRecords ?st))" by (simp add: exampleRow_sel js_def)
  have f: "\<not> findThrows exampleSheet" by (simp add: exampleSheet_sel)
  have b: "findManyUnsynced ?st =
     [exampleRow (js ''b'') 1, exampleRow (js ''c'') 2, exampleRow (js ''a'') 3]"
    by (simp add: findManyUnsynced_def exampleRow_sel)
  have p: "pushCompletes exampleSheet (exampleRow (js ''a'') 3)"
    "pushCompletes exampleSheet (exampleRow (js ''b'') 1)"
    "\<not> pushCompletes exampleSheet (exampleRow (js ''c'') 2)"
    by (simp_all add: pushCompletes_def exampleSheet_sel exampleRow_sel js_def)
  from syncToGoogleSheets_outcome[OF d f] obtain res st' where
    r: "syncToGoogleSheets exampleSheet ?st = (Inr res, st')"
    and t: "r_synced res + r_errors res = length (findManyUnsynced ?st)"
    and s: "r_synced res = length (filter (pushCompletes exampleSheet) (findManyUnsynced ?st))"
    and m: "meetingRecords st' =
       map (\<lambda>r. if r \<in> set (findManyUnsynced ?st) \<and> pushCompletes exampleSheet r
                then r\<lparr>mr_syncedToSheets := True,
                       mr_googleSheetsRowId := addRecord exampleSheet r,
                       mr_sheetsLastSync := Some (newDateNow exampleSheet r)\<rparr>
                else r) (meetingRecords ?st)"
    by blast
  from s p have s2: "r_synced res = 2" unfolding b by simp
  with t have e1: "r_errors res = 1" unfolding b by simp
  from s2 e1 have res: "res = \<lparr>r_synced = 2, r_errors = 1\<rparr>" by (cases res) simp
  from m p have m2: "map (\<lambda>r. (mr_id r, mr_syncedToSheets r, mr_googleSheetsRowId r, mr_sheetsLastSync r))
     (meetingRecords st') =
     [(js ''a'', True, Some (js ''row-a''), Some 1753610400000),
      (js ''b'', True, Some (js ''row-b''), Some 1753610400000),
      (js ''c'', False, None, None)]"
    unfolding b by (simp add: exampleRow_sel exampleSheet_sel exampleRow_eq) (simp add: js_def)
  from d f b r res m2 show ?thesis by simp
qed

lemma createData_sync_fields:
  "mr_syncedToSheets (createData env dto a vr dd ex newId) = False"
  "mr_googleSheetsRowId (createData env dto a vr dd ex newId) = None"
  "mr_sheetsLastSync (createData env dto a vr dd ex newId) = None"
  by (simp_all add: createData_def)

text \<open>
  C9. The background path breaks the invariant. A record is created in the empty store
  and its scheduled callback runs with a sheet that accepts the record: before, the
  record is unsynchronised; after, it has \<open>syncedToSheets = True\<close> and a time of last
  synchronisation, and its \<open>googleSheetsRowId\<close> is still absent.
\<close>

theorem background_sync_leaves_row_id_absent:
  "map (\<lambda>r. (mr_id r, mr_syncedToSheets r, mr_googleSheetsRowId r, mr_sheetsLastSync r))
     (meetingRecords (snd (createMeetingRecord exampleEnv validDto None emptyStore))) =
     [(js ''rec1'', False, None, None)] \<and>
   map (\<lambda>r. (mr_id r, mr_syncedToSheets r, mr_googleSheetsRowId r, mr_sheetsLastSync r))
     (meetingRecords (runScheduled exampleSheet
        (snd (createMeetingRecord exampleEnv validDto None emptyStore)))) =
     [(js ''rec1'', True, None, Some 1753610400000)]"
  by (simp add: example_create runScheduled_def backgroundTask_def findUnique_def
      updateRecord_def mr_id_createData createData_sync_fields exampleSheet_sel)
    (simp add: js_def)

text \<open>The batch path keeps the invariant: its update sets all three fields.\<close>

lemma updateRecord_syncedComplete:
  assumes "storeSyncedComplete st"
    and "updateRecord rid (\<lambda>r. r\<lparr>mr_syncedToSheets := True, mr_googleSheetsRowId := Some rowId,
                                 mr_sheetsLastSync := Some t\<rparr>) st = Some st'"
  shows "storeSyncedComplete st'"
  using assms
  by (auto simp: updateRecord_def storeSyncedComplete_def syncedComplete_def split: if_splits)

lemma syncLoop_syncedComplete:
  "storeSyncedComplete st \<Longrightarrow> storeSyncedComplete (fst (syncLoop env recs (st, s, e)))"
proof (induction recs arbitrary: st s e)
  case Nil
  then show ?case by simp
next
  case (Cons x rest)
  show ?case
  proof (cases "addRecord env x")
    case None
    with Cons show ?thesis by simp
  next
    case (Some rowId)
    show ?thesis
    proof (cases "updateThrows env (mr_id x)")
      case True
      with Some Cons show ?thesis by simp
    next
      case False
      show ?thesis
      proof (cases "updateRecord (mr_id x)
                          (\<lambda>r. r\<lparr>mr_syncedToSheets := True,
                                 mr_googleSheetsRowId := Some rowId,
                                 mr_sheetsLastSync := Some (newDateNow env x)\<rparr>) st")
        case None
        with Some False Cons show ?thesis by simp
      next
        case (Some st1)
        from updateRecord_syncedComplete[OF Cons.prems Some] have "storeSyncedComplete st1" .
        from Cons.IH[OF this] \<open>addRecord env x = Some rowId\<close> False Some show ?thesis by simp
      qed
    qed
  qed
qed

lemma syncToGoogleSheets_syncedComplete:
  "storeSyncedComplete st \<Longrightarrow> storeSyncedComplete (snd (syncToGoogleSheets env st))"
  using syncLoop_syncedComplete[of st env "findManyUnsynced st" 0 0]
  by (auto simp: syncToGoogleSheets_def Let_def split: prod.splits)

end
